theory Spec2Isabelle
  imports Complex_Main "HOL-Library.List_Lexorder" "HOL-Library.Char_ord"
begin

section \<open>Data model of the e-commerce loader\<close>

text \<open>
  A pandas data frame is modelled as the list of its rows, in index order; a row is a
  record with one field per column. A cell that pandas shows as NaN, NaT or None is
  \<open>None\<close>. Only the columns that \<open>process_data\<close> selects from each raw table are kept
  (the source projects with \<open>df[[...]]\<close> before every merge).

  A timestamp is the number of nanoseconds since 1970-01-01T00:00:00, which is how pandas
  stores a \<open>datetime64[ns]\<close> value.
\<close>

type_synonym timestamp = int

record item_cols =
  order_id :: "string option"
  order_item_id :: "int option"
  product_id :: "string option"
  price :: "rat option"
  freight_value :: "rat option"

record with_order = item_cols +
  customer_id :: "string option"
  order_status :: "string option"
  order_purchase_timestamp :: "timestamp option"
  order_delivered_customer_date :: "timestamp option"

record with_product = with_order +
  product_category_name :: "string option"

record with_customer = with_product +
  customer_state :: "string option"
  customer_city :: "string option"

record with_review = with_customer +
  review_score :: "int option"

record sales_row = with_review +
  purchase_year :: "int option"
  purchase_month :: "int option"
  delivery_days :: "int option"

text \<open>The selected columns of the raw orders, products, customers and reviews tables.\<close>

record orders_row =
  o_order_id :: "string option"
  o_customer_id :: "string option"
  o_order_status :: "string option"
  o_order_purchase_timestamp :: "timestamp option"
  o_order_delivered_customer_date :: "timestamp option"

record products_row =
  p_product_id :: "string option"
  p_product_category_name :: "string option"

record customers_row =
  c_customer_id :: "string option"
  c_customer_state :: "string option"
  c_customer_city :: "string option"

record reviews_row =
  rv_order_id :: "string option"
  rv_review_score :: "int option"

record raw_tables =
  orders :: "orders_row list"
  order_items :: "item_cols list"
  products :: "products_row list"
  customers :: "customers_row list"
  reviews :: "reviews_row list"

datatype py_error = TypeError | OSError

record loader =
  data_path :: string
  raw :: "raw_tables option"
  processed :: "sales_row list option"

text \<open>
  The files under a directory, as \<open>load_raw_data\<close> reads them: the parsed tables, or
  \<open>None\<close> when reading raises.
\<close>

type_synonym csv_env = "string \<Rightarrow> raw_tables option"

section \<open>The pandas operations used by the loader\<close>

subsection \<open>Calendar fields of a timestamp\<close>

definition ns_per_day :: int where
  "ns_per_day = 86400000000000"

text \<open>Proleptic Gregorian date (year, month, day) of a day count since 1970-01-01.\<close>

definition civil_from_days :: "int \<Rightarrow> int \<times> int \<times> int" where
  "civil_from_days z =
     (let s = z + 719468;
          era = s div 146097;
          doe = s mod 146097;
          yoe = (doe - doe div 1460 + doe div 36524 - doe div 146096) div 365;
          doy = doe - (365 * yoe + yoe div 4 - yoe div 100);
          mp = (5 * doy + 2) div 153;
          d = doy - (153 * mp + 2) div 5 + 1;
          m = (if mp < 10 then mp + 3 else mp - 9);
          y = yoe + era * 400 + (if m \<le> 2 then 1 else 0)
      in (y, m, d))"

definition dt_year :: "timestamp \<Rightarrow> int" where
  "dt_year t = fst (civil_from_days (t div ns_per_day))"

definition dt_month :: "timestamp \<Rightarrow> int" where
  "dt_month t = fst (snd (civil_from_days (t div ns_per_day)))"

text \<open>
  \<open>.dt.days\<close> of a time difference: the days component, which pandas normalises so that
  the remaining components are not negative (the difference rounded down to days).
\<close>

definition dt_days :: "int \<Rightarrow> int" where
  "dt_days delta = delta div ns_per_day"

subsection \<open>Left merge and drop_duplicates\<close>

text \<open>
  \<open>left.merge(right, on=key, how='left')\<close>: the rows of the left frame in their order,
  each paired with every right row of the same key in the right frame's order, or once
  with missing right columns when no right row has the key. pandas matches a missing key
  with a missing key, as equality on \<open>option\<close> does.
\<close>

definition merge_rows :: "('l \<Rightarrow> 'k) \<Rightarrow> ('r \<Rightarrow> 'k) \<Rightarrow> ('l \<Rightarrow> 'r option \<Rightarrow> 'o) \<Rightarrow> 'r list \<Rightarrow> 'l \<Rightarrow> 'o list" where
  "merge_rows lkey rkey attach right l =
     (case filter (\<lambda>r. rkey r = lkey l) right of
        [] \<Rightarrow> [attach l None]
      | m # ms \<Rightarrow> map (\<lambda>r. attach l (Some r)) (m # ms))"

definition merge_left :: "('l \<Rightarrow> 'k) \<Rightarrow> ('r \<Rightarrow> 'k) \<Rightarrow> ('l \<Rightarrow> 'r option \<Rightarrow> 'o) \<Rightarrow> 'l list \<Rightarrow> 'r list \<Rightarrow> 'o list" where
  "merge_left lkey rkey attach left right = concat (map (merge_rows lkey rkey attach right) left)"

text \<open>\<open>drop_duplicates(subset=key, keep='first')\<close>: the first row of every key, in order.\<close>

fun drop_duplicates_from :: "'k list \<Rightarrow> ('a \<Rightarrow> 'k) \<Rightarrow> 'a list \<Rightarrow> 'a list" where
  "drop_duplicates_from seen key [] = []"
| "drop_duplicates_from seen key (x # xs) =
     (if key x \<in> set seen then drop_duplicates_from seen key xs
      else x # drop_duplicates_from (key x # seen) key xs)"

definition drop_duplicates :: "('a \<Rightarrow> 'k) \<Rightarrow> 'a list \<Rightarrow> 'a list" where
  "drop_duplicates key xs = drop_duplicates_from [] key xs"

section \<open>EcommerceDataLoader\<close>

subsection \<open>process_data\<close>

definition attach_order :: "item_cols \<Rightarrow> orders_row option \<Rightarrow> with_order" where
  "attach_order l m =
     \<lparr>order_id = order_id l, order_item_id = order_item_id l, product_id = product_id l,
      price = price l, freight_value = freight_value l,
      customer_id = Option.bind m o_customer_id,
      order_status = Option.bind m o_order_status,
      order_purchase_timestamp = Option.bind m o_order_purchase_timestamp,
      order_delivered_customer_date = Option.bind m o_order_delivered_customer_date\<rparr>"

definition attach_product :: "with_order \<Rightarrow> products_row option \<Rightarrow> with_product" where
  "attach_product l m =
     \<lparr>order_id = order_id l, order_item_id = order_item_id l, product_id = product_id l,
      price = price l, freight_value = freight_value l,
      customer_id = customer_id l, order_status = order_status l,
      order_purchase_timestamp = order_purchase_timestamp l,
      order_delivered_customer_date = order_delivered_customer_date l,
      product_category_name = Option.bind m p_product_category_name\<rparr>"

definition attach_customer :: "with_product \<Rightarrow> customers_row option \<Rightarrow> with_customer" where
  "attach_customer l m =
     \<lparr>order_id = order_id l, order_item_id = order_item_id l, product_id = product_id l,
      price = price l, freight_value = freight_value l,
      customer_id = customer_id l, order_status = order_status l,
      order_purchase_timestamp = order_purchase_timestamp l,
      order_delivered_customer_date = order_delivered_customer_date l,
      product_category_name = product_category_name l,
      customer_state = Option.bind m c_customer_state,
      customer_city = Option.bind m c_customer_city\<rparr>"

definition attach_review :: "with_customer \<Rightarrow> reviews_row option \<Rightarrow> with_review" where
  "attach_review l m =
     \<lparr>order_id = order_id l, order_item_id = order_item_id l, product_id = product_id l,
      price = price l, freight_value = freight_value l,
      customer_id = customer_id l, order_status = order_status l,
      order_purchase_timestamp = order_purchase_timestamp l,
      order_delivered_customer_date = order_delivered_customer_date l,
      product_category_name = product_category_name l,
      customer_state = customer_state l, customer_city = customer_city l,
      review_score = Option.bind m rv_review_score\<rparr>"

text \<open>The three derived columns (lines 137 to 144 of the loader).\<close>

definition add_derived :: "with_review \<Rightarrow> sales_row" where
  "add_derived l =
     \<lparr>order_id = order_id l, order_item_id = order_item_id l, product_id = product_id l,
      price = price l, freight_value = freight_value l,
      customer_id = customer_id l, order_status = order_status l,
      order_purchase_timestamp = order_purchase_timestamp l,
      order_delivered_customer_date = order_delivered_customer_date l,
      product_category_name = product_category_name l,
      customer_state = customer_state l, customer_city = customer_city l,
      review_score = review_score l,
      purchase_year = map_option dt_year (order_purchase_timestamp l),
      purchase_month = map_option dt_month (order_purchase_timestamp l),
      delivery_days =
        (case order_delivered_customer_date l of
           None \<Rightarrow> None
         | Some d \<Rightarrow>
             (case order_purchase_timestamp l of
                None \<Rightarrow> None
              | Some p \<Rightarrow> Some (dt_days (d - p))))\<rparr>"

definition merge_orders :: "raw_tables \<Rightarrow> with_order list" where
  "merge_orders t = merge_left order_id o_order_id attach_order (order_items t) (orders t)"

definition merge_products :: "raw_tables \<Rightarrow> with_product list" where
  "merge_products t = merge_left product_id p_product_id attach_product (merge_orders t) (products t)"

definition merge_customers :: "raw_tables \<Rightarrow> with_customer list" where
  "merge_customers t =
     merge_left customer_id c_customer_id attach_customer (merge_products t) (customers t)"

definition reviews_deduped :: "raw_tables \<Rightarrow> reviews_row list" where
  "reviews_deduped t = drop_duplicates rv_order_id (reviews t)"

definition merge_reviews :: "raw_tables \<Rightarrow> with_review list" where
  "merge_reviews t =
     merge_left order_id rv_order_id attach_review (merge_customers t) (reviews_deduped t)"

definition process_tables :: "raw_tables \<Rightarrow> sales_row list" where
  "process_tables t = map add_derived (merge_reviews t)"

definition load_raw_data :: "csv_env \<Rightarrow> loader \<Rightarrow> py_error + loader \<times> raw_tables" where
  "load_raw_data env l =
     (case env (data_path l) of
        None \<Rightarrow> Inl OSError
      | Some t \<Rightarrow> Inr (l\<lparr>raw := Some t\<rparr>, t))"

definition process_data :: "csv_env \<Rightarrow> loader \<Rightarrow> py_error + loader \<times> sales_row list" where
  "process_data env l =
     (case (case raw l of None \<Rightarrow> load_raw_data env l | Some t \<Rightarrow> Inr (l, t)) of
        Inl e \<Rightarrow> Inl e
      | Inr (l1, t) \<Rightarrow> Inr (l1\<lparr>processed := Some (process_tables t)\<rparr>, process_tables t))"

subsection \<open>create_sales_dataset\<close>

definition create_sales_dataset ::
  "csv_env \<Rightarrow> loader \<Rightarrow> int option \<Rightarrow> int option \<Rightarrow> string option \<Rightarrow> py_error + loader \<times> sales_row list" where
  "create_sales_dataset env l year_filter month_filter status_filter =
     (case (case processed l of
              None \<Rightarrow> process_data env l
            | Some p \<Rightarrow> Inr (l, p)) of
        Inl e \<Rightarrow> Inl e
      | Inr (l1, p) \<Rightarrow>
          (let df = p \<comment> \<open>\<open>self.processed.copy()\<close>\<close>;
               df = (case status_filter of
                       None \<Rightarrow> df
                     | Some s \<Rightarrow> filter (\<lambda>r. order_status r = Some s) df);
               df = (case year_filter of
                       None \<Rightarrow> df
                     | Some y \<Rightarrow> filter (\<lambda>r. purchase_year r = Some y) df);
               df = (case month_filter of
                       None \<Rightarrow> df
                     | Some m \<Rightarrow> filter (\<lambda>r. purchase_month r = Some m) df)
           in Inr (l1, df)))"

text \<open>
  A call site: an argument is either left out, and the parameter takes its default
  (\<open>year_filter=None\<close>, \<open>month_filter=None\<close>, \<open>status_filter='delivered'\<close>), or passed.
\<close>

datatype 'a arg = Omitted | Passed 'a

definition bind_arg :: "'a \<Rightarrow> 'a arg \<Rightarrow> 'a" where
  "bind_arg dflt a = (case a of Omitted \<Rightarrow> dflt | Passed v \<Rightarrow> v)"

definition call_create_sales_dataset ::
  "csv_env \<Rightarrow> loader \<Rightarrow> int option arg \<Rightarrow> int option arg \<Rightarrow> string option arg
     \<Rightarrow> py_error + loader \<times> sales_row list" where
  "call_create_sales_dataset env l year_arg month_arg status_arg =
     create_sales_dataset env l (bind_arg None year_arg) (bind_arg None month_arg)
       (bind_arg (Some ''delivered'') status_arg)"

section \<open>Numbers and aggregations of business_metrics\<close>

text \<open>
  A float64 value is modelled as an exact rational, an infinity or NaN. The rounding error
  of binary floating point and the sign of zero are not modelled; a price is a rational or
  missing. Division by zero follows IEEE 754, as numpy and pandas do.
\<close>

datatype float64 = Val rat | PInf | NInf | NaN

fun fneg :: "float64 \<Rightarrow> float64" where
  "fneg (Val x) = Val (- x)"
| "fneg PInf = NInf"
| "fneg NInf = PInf"
| "fneg NaN = NaN"

fun fsub :: "float64 \<Rightarrow> float64 \<Rightarrow> float64" where
  "fsub NaN b = NaN"
| "fsub a NaN = NaN"
| "fsub (Val x) (Val y) = Val (x - y)"
| "fsub (Val x) PInf = NInf"
| "fsub (Val x) NInf = PInf"
| "fsub PInf PInf = NaN"
| "fsub PInf b = PInf"
| "fsub NInf NInf = NaN"
| "fsub NInf b = NInf"

text \<open>An infinity times or divided by a finite value: the sign of the product.\<close>

definition scale_inf :: "float64 \<Rightarrow> rat \<Rightarrow> float64" where
  "scale_inf a y = (if y < 0 then fneg a else a)"

fun fmul :: "float64 \<Rightarrow> float64 \<Rightarrow> float64" where
  "fmul NaN b = NaN"
| "fmul a NaN = NaN"
| "fmul (Val x) (Val y) = Val (x * y)"
| "fmul (Val x) b = (if x = 0 then NaN else scale_inf b x)"
| "fmul a (Val y) = (if y = 0 then NaN else scale_inf a y)"
| "fmul PInf b = b"
| "fmul NInf b = fneg b"

fun fdiv :: "float64 \<Rightarrow> float64 \<Rightarrow> float64" where
  "fdiv NaN b = NaN"
| "fdiv a NaN = NaN"
| "fdiv (Val x) (Val y) =
     (if y \<noteq> 0 then Val (x / y)
      else if x = 0 then NaN
      else if 0 < x then PInf else NInf)"
| "fdiv (Val x) b = Val 0"
| "fdiv a (Val y) = scale_inf a y"
| "fdiv a b = NaN"

text \<open>Rounding to \<open>n\<close> decimals, ties to the even neighbour (Python and numpy \<open>round\<close>).\<close>

definition round_half_even :: "rat \<Rightarrow> int" where
  "round_half_even q =
     (let f = \<lfloor>q\<rfloor>; d = q - of_int f
      in if d < 1 / 2 then f
         else if 1 / 2 < d then f + 1
         else if even f then f else f + 1)"

fun fround :: "nat \<Rightarrow> float64 \<Rightarrow> float64" where
  "fround n (Val q) = Val (of_int (round_half_even (q * 10 ^ n)) / 10 ^ n)"
| "fround n a = a"

text \<open>Python truth value of a number: zero is false, everything else (NaN too) is true.\<close>

fun truthy :: "float64 \<Rightarrow> bool" where
  "truthy (Val x) = (x \<noteq> 0)"
| "truthy a = True"

text \<open>\<open>Series.sum()\<close>: missing values are skipped, the empty sum is 0.\<close>

definition sum_skipna :: "rat option list \<Rightarrow> rat" where
  "sum_skipna xs = sum_list (map (\<lambda>v. case v of None \<Rightarrow> 0 | Some p \<Rightarrow> p) xs)"

text \<open>\<open>Series.nunique()\<close>: the number of distinct values that are not missing.\<close>

definition nunique :: "'a option list \<Rightarrow> nat" where
  "nunique xs = length (remdups (List.map_filter id xs))"

text \<open>\<open>Series.count()\<close>: the number of values that are not missing.\<close>

definition count_notna :: "'a option list \<Rightarrow> nat" where
  "count_notna xs = length (List.map_filter id xs)"

text \<open>\<open>Series.mean()\<close>: missing values are skipped; NaN when nothing is left.\<close>

definition mean :: "rat list \<Rightarrow> float64" where
  "mean xs = (if xs = [] then NaN else Val (sum_list xs / of_nat (length xs)))"

definition mean_skipna :: "int option list \<Rightarrow> float64" where
  "mean_skipna xs = mean (map of_int (List.map_filter id xs))"

text \<open>
  \<open>groupby(key)\<close>: one group per distinct key that is not missing, in ascending key order;
  the group of a key holds the rows of that key.
\<close>

definition groupby_keys :: "('r \<Rightarrow> 'k::linorder option) \<Rightarrow> 'r list \<Rightarrow> 'k list" where
  "groupby_keys key rows = sort (remdups (List.map_filter key rows))"

definition group_rows :: "('r \<Rightarrow> 'k option) \<Rightarrow> 'r list \<Rightarrow> 'k \<Rightarrow> 'r list" where
  "group_rows key rows k = filter (\<lambda>r. key r = Some k) rows"

subsection \<open>calculate_revenue_metrics\<close>

text \<open>
  The keys of the returned dict. The keys built from a year are one key per year, so the
  two entries of a kind fall on the same key when both years are equal, as in Python.
\<close>

datatype metric_key =
    K_current_year
  | K_comparison_year
  | K_total_revenue int
  | K_revenue_growth_pct
  | K_total_orders int
  | K_order_growth_pct
  | K_aov int
  | K_aov_growth_pct

datatype metric_value = IntValue int | FloatValue float64

definition pct_change :: "float64 \<Rightarrow> float64 \<Rightarrow> float64 option" where
  "pct_change new old =
     (if truthy old then Some (fmul (fdiv (fsub new old) old) (Val 100)) else None)"

text \<open>\<open>round(v, n)\<close>, which raises TypeError on \<open>None\<close>.\<close>

definition py_round :: "float64 option \<Rightarrow> nat \<Rightarrow> py_error + float64" where
  "py_round v n = (case v of None \<Rightarrow> Inl TypeError | Some x \<Rightarrow> Inr (fround n x))"

definition order_sums :: "sales_row list \<Rightarrow> rat list" where
  "order_sums sales =
     map (\<lambda>k. sum_skipna (map price (group_rows order_id sales k))) (groupby_keys order_id sales)"

definition calculate_revenue_metrics ::
  "sales_row list \<Rightarrow> sales_row list \<Rightarrow> int \<Rightarrow> int \<Rightarrow> py_error + (metric_key \<rightharpoonup> metric_value)" where
  "calculate_revenue_metrics current_sales comparison_sales current_year comparison_year =
     (let rev_cur = sum_skipna (map price current_sales);
          rev_comp = sum_skipna (map price comparison_sales);
          orders_cur = nunique (map order_id current_sales);
          orders_comp = nunique (map order_id comparison_sales);
          aov_cur = mean (order_sums current_sales);
          aov_comp = mean (order_sums comparison_sales)
      in case py_round (pct_change (Val rev_cur) (Val rev_comp)) 2 of
           Inl e \<Rightarrow> Inl e
         | Inr revenue_growth \<Rightarrow>
        (case py_round (pct_change (Val (of_nat orders_cur)) (Val (of_nat orders_comp))) 2 of
           Inl e \<Rightarrow> Inl e
         | Inr order_growth \<Rightarrow>
        (case py_round (pct_change aov_cur aov_comp) 2 of
           Inl e \<Rightarrow> Inl e
         | Inr aov_growth \<Rightarrow>
             Inr (Map.empty
                   (K_current_year \<mapsto> IntValue current_year,
                    K_comparison_year \<mapsto> IntValue comparison_year,
                    K_total_revenue current_year \<mapsto> FloatValue (fround 2 (Val rev_cur)),
                    K_total_revenue comparison_year \<mapsto> FloatValue (fround 2 (Val rev_comp)),
                    K_revenue_growth_pct \<mapsto> FloatValue revenue_growth,
                    K_total_orders current_year \<mapsto> IntValue (int orders_cur),
                    K_total_orders comparison_year \<mapsto> IntValue (int orders_comp),
                    K_order_growth_pct \<mapsto> FloatValue order_growth,
                    K_aov current_year \<mapsto> FloatValue (fround 2 aov_cur),
                    K_aov comparison_year \<mapsto> FloatValue (fround 2 aov_comp),
                    K_aov_growth_pct \<mapsto> FloatValue aov_growth)))))"

subsection \<open>calculate_monthly_revenue\<close>

record monthly_row =
  m_purchase_month :: int
  m_revenue :: rat
  m_mom_growth_pct :: float64

text \<open>\<open>Series.pct_change()\<close>: NaN first, then each value over its predecessor, minus 1.\<close>

definition pct_change_series :: "rat list \<Rightarrow> float64 list" where
  "pct_change_series xs =
     (case xs of
        [] \<Rightarrow> []
      | x # ys \<Rightarrow> NaN # map2 (\<lambda>prev cur. fsub (fdiv (Val cur) (Val prev)) (Val 1)) xs ys)"

definition calculate_monthly_revenue :: "sales_row list \<Rightarrow> monthly_row list" where
  "calculate_monthly_revenue sales =
     (let monthly =
            sort_key fst
              (map (\<lambda>m. (m, sum_skipna (map price (group_rows purchase_month sales m))))
                 (groupby_keys purchase_month sales));
          growth = map (\<lambda>v. fmul v (Val 100)) (pct_change_series (map snd monthly))
      in map2 (\<lambda>(m, r) g. \<lparr>m_purchase_month = m, m_revenue = r, m_mom_growth_pct = g\<rparr>)
           monthly growth)"

subsection \<open>calculate_geographic_metrics\<close>

record geo_row =
  g_customer_state :: string
  g_revenue :: rat
  g_order_count :: nat
  g_aov :: float64

text \<open>
  The final \<open>sort_values('revenue', ascending=False)\<close> is modelled as a stable sort; the
  order pandas gives to states of equal revenue is not claimed anywhere.
\<close>

definition calculate_geographic_metrics :: "sales_row list \<Rightarrow> geo_row list" where
  "calculate_geographic_metrics sales =
     (let geo =
            map (\<lambda>s. (s, sum_skipna (map price (group_rows customer_state sales s)),
                        nunique (map order_id (group_rows customer_state sales s))))
              (groupby_keys customer_state sales);
          with_aov =
            map (\<lambda>(s, revenue, order_count).
                   \<lparr>g_customer_state = s, g_revenue = revenue, g_order_count = order_count,
                    g_aov = fround 2 (fdiv (Val revenue) (Val (of_nat order_count)))\<rparr>) geo
      in sort_key (\<lambda>g. - g_revenue g) with_aov)"

subsection \<open>calculate_delivery_metrics\<close>

text \<open>
  \<open>_bucket_delivery\<close> (an Isabelle name cannot start with an underscore), on the whole
  days that \<open>process_data\<close> derives.
\<close>

definition bucket_delivery :: "int option \<Rightarrow> string" where
  "bucket_delivery days =
     (case days of
        None \<Rightarrow> ''unknown''
      | Some d \<Rightarrow>
          if d \<le> 3 then ''1-3 days''
          else if d \<le> 7 then ''4-7 days''
          else ''8+ days'')"

definition bucket_order :: "string list" where
  "bucket_order = [''1-3 days'', ''4-7 days'', ''8+ days'']"

text \<open>\<open>pd.Categorical(values, categories)\<close>: a value outside the categories becomes NaN.\<close>

definition categorical :: "string list \<Rightarrow> string \<Rightarrow> string option" where
  "categorical categories v = (if v \<in> set categories then Some v else None)"

text \<open>The sort position of a categorical value: its category's index, NaN last.\<close>

definition category_code :: "string list \<Rightarrow> string option \<Rightarrow> nat" where
  "category_code categories c =
     (case c of
        None \<Rightarrow> length categories
      | Some v \<Rightarrow> length (takeWhile (\<lambda>x. x \<noteq> v) categories))"

record bucket_row =
  b_delivery_time :: "string option"
  b_avg_review_score :: float64
  b_order_count :: nat

text \<open>
  The returned dict has three fixed keys and is a record here. The order-level frame keeps
  whole rows: the source keeps \<open>order_id\<close>, \<open>delivery_days\<close> and \<open>review_score\<close>, the only
  columns read afterwards.
\<close>

record delivery_metrics =
  avg_delivery_days :: float64
  avg_review_score :: float64
  delivery_bucket_summary :: "bucket_row list"

definition calculate_delivery_metrics :: "sales_row list \<Rightarrow> delivery_metrics" where
  "calculate_delivery_metrics sales =
     (let order_level = drop_duplicates order_id sales;
          avg_days = mean_skipna (map delivery_days order_level);
          avg_score = mean_skipna (map review_score order_level);
          delivery_time = (\<lambda>r. Some (bucket_delivery (delivery_days r)));
          bucket_summary =
            map (\<lambda>b. (b, mean_skipna (map review_score (group_rows delivery_time order_level b)),
                        count_notna (map order_id (group_rows delivery_time order_level b))))
              (groupby_keys delivery_time order_level);
          bucket_summary =
            map (\<lambda>(b, score, n).
                   \<lparr>b_delivery_time = categorical bucket_order b,
                    b_avg_review_score = score, b_order_count = n\<rparr>) bucket_summary;
          bucket_summary = sort_key (\<lambda>row. category_code bucket_order (b_delivery_time row)) bucket_summary
      in \<lparr>avg_delivery_days = fround 1 avg_days,
          avg_review_score = fround 2 avg_score,
          delivery_bucket_summary = bucket_summary\<rparr>)"

section \<open>Properties as the specification words them\<close>

text \<open>A time difference truncated to whole days, that is rounded towards zero.\<close>

definition truncated_days :: "int \<Rightarrow> int" where
  "truncated_days delta = sgn delta * (\<bar>delta\<bar> div ns_per_day)"

text \<open>A row satisfies every filter that is given; a filter that is \<open>None\<close> asks nothing.\<close>

definition matches_filters :: "int option \<Rightarrow> int option \<Rightarrow> string option \<Rightarrow> sales_row \<Rightarrow> bool" where
  "matches_filters year_filter month_filter status_filter r =
     ((case status_filter of None \<Rightarrow> True | Some s \<Rightarrow> order_status r = Some s) \<and>
      (case year_filter of None \<Rightarrow> True | Some y \<Rightarrow> purchase_year r = Some y) \<and>
      (case month_filter of None \<Rightarrow> True | Some m \<Rightarrow> purchase_month r = Some m))"

text \<open>
  Average order value as the glossary words it: the sum of price divided by the number of
  distinct order ids.
\<close>

definition revenue_per_order :: "sales_row list \<Rightarrow> float64" where
  "revenue_per_order rows =
     fdiv (Val (sum_skipna (map price rows))) (Val (of_nat (nunique (map order_id rows))))"

text \<open>The rows whose order id is present.\<close>

definition with_order_id :: "sales_row list \<Rightarrow> sales_row list" where
  "with_order_id rows = filter (\<lambda>r. order_id r \<noteq> None) rows"

text \<open>The revenue of a month: the sum of price over the rows of that month.\<close>

definition month_revenue :: "sales_row list \<Rightarrow> int \<Rightarrow> rat" where
  "month_revenue sales m = sum_skipna (map price (filter (\<lambda>r. purchase_month r = Some m) sales))"

section \<open>Example tables\<close>

text \<open>
  Four order items. Order \<open>o1\<close> (purchased 2023-03-15 10:00, delivered 2023-03-18 09:00)
  has two items and two reviews; order \<open>o2\<close> has no row in the orders table; order
  \<open>o3\<close> (purchased 2022-04-15) is not delivered; product \<open>p9\<close> and customer \<open>c7\<close>
  are not in their tables.
\<close>

definition example_tables :: raw_tables where
  "example_tables =
     \<lparr>orders =
        [\<lparr>o_order_id = Some ''o1'', o_customer_id = Some ''c1'', o_order_status = Some ''delivered'',
          o_order_purchase_timestamp = Some 1678874400000000000,
          o_order_delivered_customer_date = Some 1679130000000000000\<rparr>,
         \<lparr>o_order_id = Some ''o3'', o_customer_id = Some ''c7'', o_order_status = Some ''shipped'',
          o_order_purchase_timestamp = Some 1650000000000000000,
          o_order_delivered_customer_date = None\<rparr>],
      order_items =
        [\<lparr>order_id = Some ''o1'', order_item_id = Some 1, product_id = Some ''p1'',
          price = Some 10, freight_value = Some 1\<rparr>,
         \<lparr>order_id = Some ''o1'', order_item_id = Some 2, product_id = Some ''p9'',
          price = Some 5, freight_value = Some 1\<rparr>,
         \<lparr>order_id = Some ''o2'', order_item_id = Some 1, product_id = Some ''p1'',
          price = Some 20, freight_value = Some 2\<rparr>,
         \<lparr>order_id = Some ''o3'', order_item_id = Some 1, product_id = Some ''p1'',
          price = Some 7, freight_value = Some 2\<rparr>],
      products = [\<lparr>p_product_id = Some ''p1'', p_product_category_name = Some ''toys''\<rparr>],
      customers =
        [\<lparr>c_customer_id = Some ''c1'', c_customer_state = Some ''SP'',
          c_customer_city = Some ''sao paulo''\<rparr>],
      reviews =
        [\<lparr>rv_order_id = Some ''o1'', rv_review_score = Some 5\<rparr>,
         \<lparr>rv_order_id = Some ''o1'', rv_review_score = Some 1\<rparr>]\<rparr>"

definition example_loader :: loader where
  "example_loader = \<lparr>data_path = ''ecommerce_data/'', raw = Some example_tables, processed = None\<rparr>"

definition example_built :: loader where
  "example_built = example_loader\<lparr>processed := Some (process_tables example_tables)\<rparr>"

definition no_files :: csv_env where
  "no_files = (\<lambda>p. None)"

text \<open>An order whose delivery date (2023-03-15 09:00) is one hour before its purchase.\<close>

definition early_delivery_tables :: raw_tables where
  "early_delivery_tables =
     \<lparr>orders =
        [\<lparr>o_order_id = Some ''o1'', o_customer_id = Some ''c1'', o_order_status = Some ''delivered'',
          o_order_purchase_timestamp = Some 1678874400000000000,
          o_order_delivered_customer_date = Some 1678870800000000000\<rparr>],
      order_items =
        [\<lparr>order_id = Some ''o1'', order_item_id = Some 1, product_id = Some ''p1'',
          price = Some 10, freight_value = Some 1\<rparr>],
      products = [], customers = [], reviews = []\<rparr>"

text \<open>Two order items, the first without an order id.\<close>

definition missing_id_tables :: raw_tables where
  "missing_id_tables =
     \<lparr>orders = [],
      order_items =
        [\<lparr>order_id = None, order_item_id = Some 1, product_id = Some ''p1'',
          price = Some 10, freight_value = Some 1\<rparr>,
         \<lparr>order_id = Some ''a'', order_item_id = Some 1, product_id = Some ''p1'',
          price = Some 20, freight_value = Some 1\<rparr>],
      products = [], customers = [], reviews = []\<rparr>"

section \<open>Left merges and deduplication\<close>

lemma set_merge_rows:
  "set (merge_rows lk rk att rs l) =
     (if lk l \<in> rk ` set rs then {att l (Some m) | m. m \<in> set rs \<and> rk m = lk l} else {att l None})"
proof (cases "filter (\<lambda>r. rk r = lk l) rs")
  case Nil
  then have "lk l \<notin> rk ` set rs" by (auto simp: filter_empty_conv)
  with Nil show ?thesis by (simp add: merge_rows_def)
next
  case (Cons m ms)
  then have "m \<in> set (filter (\<lambda>r. rk r = lk l) rs)" by simp
  then have in_img: "lk l \<in> rk ` set rs" by force
  have "set (merge_rows lk rk att rs l) = att l ` Some ` set (filter (\<lambda>r. rk r = lk l) rs)"
    using Cons by (simp add: merge_rows_def image_image)
  with in_img show ?thesis by auto
qed

lemma merge_left_origin:
  assumes "r \<in> set (merge_left lk rk att ls rs)"
  shows "\<exists>l m. l \<in> set ls \<and> r = att l m \<and>
           (\<forall>x. m = Some x \<longrightarrow> x \<in> set rs \<and> rk x = lk l)"
  using assms unfolding merge_left_def
  by (auto simp: set_merge_rows split: if_splits)

lemma merge_left_covers:
  assumes "l \<in> set ls"
  shows "\<exists>m. att l m \<in> set (merge_left lk rk att ls rs)"
proof (cases "lk l \<in> rk ` set rs")
  case True
  then obtain x where "x \<in> set rs" "rk x = lk l" by auto
  then have "att l (Some x) \<in> set (merge_rows lk rk att rs l)"
    using True by (auto simp: set_merge_rows)
  with assms show ?thesis unfolding merge_left_def by auto
next
  case False
  then have "att l None \<in> set (merge_rows lk rk att rs l)" by (simp add: set_merge_rows)
  with assms show ?thesis unfolding merge_left_def by auto
qed

lemmas attach_defs = attach_order_def attach_product_def attach_customer_def attach_review_def add_derived_def

lemma process_tables_covers:
  assumes "i \<in> set (order_items t)"
  shows "\<exists>r \<in> set (process_tables t). item_cols.truncate r = i"
proof -
  from assms obtain m1 where 1: "attach_order i m1 \<in> set (merge_orders t)"
    unfolding merge_orders_def using merge_left_covers by fast
  then obtain m2 where 2: "attach_product (attach_order i m1) m2 \<in> set (merge_products t)"
    unfolding merge_products_def using merge_left_covers by fast
  then obtain m3 where 3: "attach_customer (attach_product (attach_order i m1) m2) m3 \<in> set (merge_customers t)"
    unfolding merge_customers_def using merge_left_covers by fast
  then obtain m4 where 4:
    "attach_review (attach_customer (attach_product (attach_order i m1) m2) m3) m4 \<in> set (merge_reviews t)"
    unfolding merge_reviews_def using merge_left_covers by fast
  let ?r = "add_derived (attach_review (attach_customer (attach_product (attach_order i m1) m2) m3) m4)"
  have "?r \<in> set (process_tables t)" using 4 by (simp add: process_tables_def)
  moreover have "item_cols.truncate ?r = i"
    by (simp add: attach_defs item_cols.truncate_def)
  ultimately show ?thesis by blast
qed

lemma drop_duplicates_from_keys:
  "key ` set (drop_duplicates_from seen key xs) = key ` set xs - set seen"
  by (induction seen key xs rule: drop_duplicates_from.induct) auto

lemma drop_duplicates_keys: "key ` set (drop_duplicates key xs) = key ` set xs"
  by (simp add: drop_duplicates_def drop_duplicates_from_keys)

lemma drop_duplicates_from_distinct:
  "distinct (map key (drop_duplicates_from seen key xs))"
proof (induction seen key xs rule: drop_duplicates_from.induct)
  case (1 seen key)
  show ?case by simp
next
  case (2 seen key x xs)
  have "key x \<notin> key ` set (drop_duplicates_from (key x # seen) key xs)"
    by (simp add: drop_duplicates_from_keys)
  with 2 show ?case by auto
qed

lemma drop_duplicates_distinct: "distinct (map key (drop_duplicates key xs))"
  by (simp add: drop_duplicates_def drop_duplicates_from_distinct)

lemma find_drop_duplicates_from:
  "k \<notin> set seen \<Longrightarrow>
   find (\<lambda>v. key v = k) (drop_duplicates_from seen key xs) = find (\<lambda>v. key v = k) xs"
  by (induction seen key xs rule: drop_duplicates_from.induct) auto

lemma find_drop_duplicates:
  "find (\<lambda>v. key v = k) (drop_duplicates key xs) = find (\<lambda>v. key v = k) xs"
  by (simp add: drop_duplicates_def find_drop_duplicates_from)

lemma filter_unique_key:
  "distinct (map rk rs) \<Longrightarrow>
   filter (\<lambda>r. rk r = k) rs = (case find (\<lambda>r. rk r = k) rs of None \<Rightarrow> [] | Some x \<Rightarrow> [x])"
proof (induction rs)
  case Nil
  show ?case by simp
next
  case (Cons a rs)
  show ?case
  proof (cases "rk a = k")
    case True
    from Cons.prems have "rk a \<notin> rk ` set rs" by simp
    with True have "\<forall>r \<in> set rs. rk r \<noteq> k" by blast
    then have "filter (\<lambda>r. rk r = k) rs = []" by (simp add: filter_empty_conv)
    with True show ?thesis by simp
  next
    case False
    with Cons show ?thesis by simp
  qed
qed

lemma merge_rows_unique:
  "distinct (map rk rs) \<Longrightarrow>
   merge_rows lk rk att rs l = [att l (find (\<lambda>r. rk r = lk l) rs)]"
  by (simp add: merge_rows_def filter_unique_key split: option.splits)

lemma merge_left_unique:
  "distinct (map rk rs) \<Longrightarrow>
   merge_left lk rk att ls rs = map (\<lambda>l. att l (find (\<lambda>r. rk r = lk l) rs)) ls"
  by (induction ls) (simp_all add: merge_left_def merge_rows_unique)

lemma merge_reviews_eq:
  "merge_reviews t =
     map (\<lambda>l. attach_review l (find (\<lambda>v. rv_order_id v = order_id l) (reviews t))) (merge_customers t)"
  unfolding merge_reviews_def reviews_deduped_def
  by (simp add: merge_left_unique drop_duplicates_distinct find_drop_duplicates)

section \<open>The processed table\<close>

lemma process_tables_missing:
  assumes "r \<in> set (process_tables t)"
  shows "(order_id r \<notin> o_order_id ` set (orders t) \<longrightarrow>
            customer_id r = None \<and> order_status r = None \<and>
            order_purchase_timestamp r = None \<and> order_delivered_customer_date r = None) \<and>
         (product_id r \<notin> p_product_id ` set (products t) \<longrightarrow> product_category_name r = None) \<and>
         (customer_id r \<notin> c_customer_id ` set (customers t) \<longrightarrow>
            customer_state r = None \<and> customer_city r = None) \<and>
         (order_id r \<notin> rv_order_id ` set (reviews t) \<longrightarrow> review_score r = None)"
proof -
  from assms obtain r4 where r: "r = add_derived r4" and r4: "r4 \<in> set (merge_reviews t)"
    by (auto simp: process_tables_def)
  from r4 obtain r3 m4 where r3: "r3 \<in> set (merge_customers t)" and e4: "r4 = attach_review r3 m4"
    and n4: "\<And>x. m4 = Some x \<Longrightarrow> x \<in> set (reviews_deduped t) \<and> rv_order_id x = order_id r3"
    using merge_left_origin [of r4 order_id rv_order_id attach_review "merge_customers t" "reviews_deduped t"]
    unfolding merge_reviews_def by blast
  from r3 obtain r2 m3 where r2: "r2 \<in> set (merge_products t)" and e3: "r3 = attach_customer r2 m3"
    and n3: "\<And>x. m3 = Some x \<Longrightarrow> x \<in> set (customers t) \<and> c_customer_id x = customer_id r2"
    using merge_left_origin [of r3 customer_id c_customer_id attach_customer "merge_products t" "customers t"]
    unfolding merge_customers_def by blast
  from r2 obtain r1 m2 where r1: "r1 \<in> set (merge_orders t)" and e2: "r2 = attach_product r1 m2"
    and n2: "\<And>x. m2 = Some x \<Longrightarrow> x \<in> set (products t) \<and> p_product_id x = product_id r1"
    using merge_left_origin [of r2 product_id p_product_id attach_product "merge_orders t" "products t"]
    unfolding merge_products_def by blast
  from r1 obtain i m1 where e1: "r1 = attach_order i m1"
    and n1: "\<And>x. m1 = Some x \<Longrightarrow> x \<in> set (orders t) \<and> o_order_id x = order_id i"
    using merge_left_origin [of r1 order_id o_order_id attach_order "order_items t" "orders t"]
    unfolding merge_orders_def by blast
  have k: "order_id r = order_id i" "product_id r = product_id r1"
    "customer_id r = customer_id r2" "order_id r = order_id r3"
    by (simp_all add: r e4 e3 e2 e1 attach_defs)
  have a: "m1 = None" if h: "order_id r \<notin> o_order_id ` set (orders t)"
  proof (cases m1)
    case (Some x)
    with n1 have "x \<in> set (orders t)" "o_order_id x = order_id r" by (simp_all add: k(1))
    then have "order_id r \<in> o_order_id ` set (orders t)" by (metis imageI)
    with h show ?thesis by contradiction
  qed simp
  have b: "m2 = None" if h: "product_id r \<notin> p_product_id ` set (products t)"
  proof (cases m2)
    case (Some x)
    with n2 have "x \<in> set (products t)" "p_product_id x = product_id r" by (simp_all add: k(2))
    then have "product_id r \<in> p_product_id ` set (products t)" by (metis imageI)
    with h show ?thesis by contradiction
  qed simp
  have c: "m3 = None" if h: "customer_id r \<notin> c_customer_id ` set (customers t)"
  proof (cases m3)
    case (Some x)
    with n3 have "x \<in> set (customers t)" "c_customer_id x = customer_id r" by (simp_all add: k(3))
    then have "customer_id r \<in> c_customer_id ` set (customers t)" by (metis imageI)
    with h show ?thesis by contradiction
  qed simp
  have d: "m4 = None" if h: "order_id r \<notin> rv_order_id ` set (reviews t)"
  proof (cases m4)
    case (Some x)
    with n4 have "x \<in> set (reviews_deduped t)" "rv_order_id x = order_id r" by (simp_all add: k(4))
    then have "order_id r \<in> rv_order_id ` set (reviews_deduped t)" by (metis imageI)
    with h show ?thesis by (simp add: reviews_deduped_def drop_duplicates_keys)
  qed simp
  have a': "customer_id r = None \<and> order_status r = None \<and>
            order_purchase_timestamp r = None \<and> order_delivered_customer_date r = None"
    if "m1 = None"
    using that by (simp add: r e4 e3 e2 e1 attach_defs)
  have b': "product_category_name r = None" if "m2 = None"
    using that by (simp add: r e4 e3 e2 attach_defs)
  have c': "customer_state r = None \<and> customer_city r = None" if "m3 = None"
    using that by (simp add: r e4 e3 attach_defs)
  have d': "review_score r = None" if "m4 = None"
    using that by (simp add: r e4 attach_defs)
  show ?thesis
    using a a' b b' c c' d d' by blast
qed

lemma process_data_result:
  assumes "(case raw l of None \<Rightarrow> env (data_path l) | Some t0 \<Rightarrow> Some t0) = Some t"
  shows "process_data env l =
           Inr (l\<lparr>raw := Some t, processed := Some (process_tables t)\<rparr>, process_tables t)"
  using assms by (cases "raw l") (auto simp: process_data_def load_raw_data_def)

text \<open>
  Claim C1. Whenever the raw tables are loaded or can be read, \<open>process_data\<close> returns
  and stores one table: the order items left-merged with the orders on \<open>order_id\<close>, then
  with the products on \<open>product_id\<close>, then with the customers on \<open>customer_id\<close>, then
  with the reviews deduplicated on \<open>order_id\<close>, followed by the derived columns. Every
  order item is the item part of some row of the result, and a row whose order, product,
  customer or review key has no row in the matching table has the attached columns missing.
\<close>

theorem process_data_left_joins:
  assumes "(case raw l of None \<Rightarrow> env (data_path l) | Some t0 \<Rightarrow> Some t0) = Some t"
  shows "\<exists>l' df. process_data env l = Inr (l', df) \<and> processed l' = Some df \<and>
           df = map add_derived
                  (merge_left order_id rv_order_id attach_review
                    (merge_left customer_id c_customer_id attach_customer
                      (merge_left product_id p_product_id attach_product
                        (merge_left order_id o_order_id attach_order (order_items t) (orders t))
                        (products t))
                      (customers t))
                    (drop_duplicates rv_order_id (reviews t))) \<and>
           (\<forall>i \<in> set (order_items t). \<exists>r \<in> set df. item_cols.truncate r = i) \<and>
           (\<forall>r \<in> set df.
              (order_id r \<notin> o_order_id ` set (orders t) \<longrightarrow>
                 customer_id r = None \<and> order_status r = None \<and>
                 order_purchase_timestamp r = None \<and> order_delivered_customer_date r = None) \<and>
              (product_id r \<notin> p_product_id ` set (products t) \<longrightarrow>
                 product_category_name r = None) \<and>
              (customer_id r \<notin> c_customer_id ` set (customers t) \<longrightarrow>
                 customer_state r = None \<and> customer_city r = None) \<and>
              (order_id r \<notin> rv_order_id ` set (reviews t) \<longrightarrow> review_score r = None))"
proof -
  let ?df = "process_tables t"
  have "process_data env l = Inr (l\<lparr>raw := Some t, processed := Some ?df\<rparr>, ?df)"
    using assms by (rule process_data_result)
  moreover have "processed (l\<lparr>raw := Some t, processed := Some ?df\<rparr>) = Some ?df" by simp
  moreover have "?df = map add_derived
                  (merge_left order_id rv_order_id attach_review
                    (merge_left customer_id c_customer_id attach_customer
                      (merge_left product_id p_product_id attach_product
                        (merge_left order_id o_order_id attach_order (order_items t) (orders t))
                        (products t))
                      (customers t))
                    (drop_duplicates rv_order_id (reviews t)))"
    by (simp add: process_tables_def merge_reviews_def merge_customers_def merge_products_def
        merge_orders_def reviews_deduped_def)
  moreover have "\<forall>i \<in> set (order_items t). \<exists>r \<in> set ?df. item_cols.truncate r = i"
    using process_tables_covers by blast
  moreover note process_tables_missing [of _ t]
  ultimately show ?thesis by blast
qed

theorem process_data_left_joins_witness:
  "\<exists>l' df. process_data no_files example_loader = Inr (l', df) \<and> processed l' = Some df \<and>
     map item_cols.truncate df = order_items example_tables \<and>
     map customer_id df = [Some ''c1'', Some ''c1'', None, Some ''c7''] \<and>
     map product_category_name df = [Some ''toys'', None, Some ''toys'', Some ''toys''] \<and>
     map customer_state df = [Some ''SP'', Some ''SP'', None, None] \<and>
     map review_score df = [Some 5, Some 5, None, None]"
proof -
  have h: "(case raw example_loader of None \<Rightarrow> no_files (data_path example_loader) | Some t0 \<Rightarrow> Some t0)
             = Some example_tables"
    by (simp add: example_loader_def)
  from h process_data_left_joins [where l = example_loader and env = no_files and t = example_tables] obtain l' df where
    1: "process_data no_files example_loader = Inr (l', df)" and 2: "processed l' = Some df"
    and 3: "df = map add_derived
                  (merge_left order_id rv_order_id attach_review
                    (merge_left customer_id c_customer_id attach_customer
                      (merge_left product_id p_product_id attach_product
                        (merge_left order_id o_order_id attach_order (order_items example_tables) (orders example_tables))
                        (products example_tables))
                      (customers example_tables))
                    (drop_duplicates rv_order_id (reviews example_tables)))"
    by blast
  have 4: "map item_cols.truncate df = order_items example_tables"
    unfolding 3 by code_simp
  have 5: "map customer_id df = [Some ''c1'', Some ''c1'', None, Some ''c7'']"
    unfolding 3 by code_simp
  have 6: "map product_category_name df = [Some ''toys'', None, Some ''toys'', Some ''toys'']"
    unfolding 3 by code_simp
  have 7: "map customer_state df = [Some ''SP'', Some ''SP'', None, None]"
    unfolding 3 by code_simp
  have 8: "map review_score df = [Some 5, Some 5, None, None]"
    unfolding 3 by code_simp
  show ?thesis
    by (rule exI [of _ l'], rule exI [of _ df]) (intro conjI 1 2 4 5 6 7 8)
qed

lemma process_tables_derived:
  assumes "r \<in> set (process_tables t)"
  shows "purchase_year r = map_option dt_year (order_purchase_timestamp r)"
    and "purchase_month r = map_option dt_month (order_purchase_timestamp r)"
    and "delivery_days r =
           (case order_delivered_customer_date r of
              None \<Rightarrow> None
            | Some d \<Rightarrow> (case order_purchase_timestamp r of
                          None \<Rightarrow> None
                        | Some p \<Rightarrow> Some (dt_days (d - p))))"
proof -
  from assms obtain r4 where r: "r = add_derived r4" by (auto simp: process_tables_def)
  show "purchase_year r = map_option dt_year (order_purchase_timestamp r)"
    by (simp add: r add_derived_def)
  show "purchase_month r = map_option dt_month (order_purchase_timestamp r)"
    by (simp add: r add_derived_def)
  show "delivery_days r =
           (case order_delivered_customer_date r of
              None \<Rightarrow> None
            | Some d \<Rightarrow> (case order_purchase_timestamp r of
                          None \<Rightarrow> None
                        | Some p \<Rightarrow> Some (dt_days (d - p))))"
    by (cases "order_delivered_customer_date r4"; cases "order_purchase_timestamp r4")
       (simp_all add: r add_derived_def)
qed

lemma dt_days_floor:
  "dt_days delta * ns_per_day \<le> delta \<and> delta < (dt_days delta + 1) * ns_per_day"
proof -
  have pos: "0 < ns_per_day" by (simp add: ns_per_day_def)
  have "delta = dt_days delta * ns_per_day + delta mod ns_per_day"
    by (simp add: dt_days_def)
  moreover have "0 \<le> delta mod ns_per_day" "delta mod ns_per_day < ns_per_day"
    using pos by simp_all
  ultimately show ?thesis by (simp add: algebra_simps)
qed

lemma truncated_days_nonneg: "0 \<le> delta \<Longrightarrow> truncated_days delta = dt_days delta"
  by (cases "delta = 0") (simp_all add: truncated_days_def dt_days_def)

text \<open>
  Claim C6, amended. In every row of the processed table, \<open>purchase_year\<close> and
  \<open>purchase_month\<close> are the year and the month of \<open>order_purchase_timestamp\<close>, and are
  missing when it is missing. When both timestamps are present, \<open>delivery_days\<close> is the
  difference rounded down to whole days, which is the truncated difference whenever the
  delivery is not earlier than the purchase; when either is missing, it is missing.
\<close>

theorem derived_columns:
  assumes "r \<in> set (process_tables t)"
  shows "purchase_year r = map_option dt_year (order_purchase_timestamp r) \<and>
         purchase_month r = map_option dt_month (order_purchase_timestamp r) \<and>
         (\<forall>p d. order_purchase_timestamp r = Some p \<and> order_delivered_customer_date r = Some d \<longrightarrow>
            (\<exists>k. delivery_days r = Some k \<and>
                 k * ns_per_day \<le> d - p \<and> d - p < (k + 1) * ns_per_day \<and>
                 (p \<le> d \<longrightarrow> k = truncated_days (d - p)))) \<and>
         (order_purchase_timestamp r = None \<or> order_delivered_customer_date r = None \<longrightarrow>
            delivery_days r = None)"
proof -
  note d = process_tables_derived [OF assms]
  have "\<exists>k. delivery_days r = Some k \<and>
            k * ns_per_day \<le> d - p \<and> d - p < (k + 1) * ns_per_day \<and>
            (p \<le> d \<longrightarrow> k = truncated_days (d - p))"
    if "order_purchase_timestamp r = Some p" "order_delivered_customer_date r = Some d" for p d
  proof -
    have "delivery_days r = Some (dt_days (d - p))" using that by (simp add: d(3))
    moreover note dt_days_floor [of "d - p"]
    moreover have "p \<le> d \<Longrightarrow> dt_days (d - p) = truncated_days (d - p)"
      by (simp add: truncated_days_nonneg)
    ultimately show ?thesis by blast
  qed
  moreover have "delivery_days r = None"
    if "order_purchase_timestamp r = None \<or> order_delivered_customer_date r = None"
    using that by (auto simp: d(3) split: option.splits)
  ultimately show ?thesis using d(1) d(2) by blast
qed

theorem derived_columns_witness:
  "map purchase_year (process_tables example_tables) = [Some 2023, Some 2023, None, Some 2022] \<and>
   map purchase_month (process_tables example_tables) = [Some 3, Some 3, None, Some 4] \<and>
   map delivery_days (process_tables example_tables) = [Some 2, Some 2, None, None] \<and>
   (\<exists>r. r \<in> set (process_tables example_tables) \<and>
        purchase_year r = map_option dt_year (order_purchase_timestamp r))"
proof -
  have m: "hd (process_tables example_tables) \<in> set (process_tables example_tables)"
    by code_simp
  have 1: "map purchase_year (process_tables example_tables) = [Some 2023, Some 2023, None, Some 2022]"
    by code_simp
  have 2: "map purchase_month (process_tables example_tables) = [Some 3, Some 3, None, Some 4]"
    by code_simp
  have 3: "map delivery_days (process_tables example_tables) = [Some 2, Some 2, None, None]"
    by code_simp
  from derived_columns [OF m] have
    "purchase_year (hd (process_tables example_tables)) =
       map_option dt_year (order_purchase_timestamp (hd (process_tables example_tables)))"
    by (rule conjunct1)
  with m 1 2 3 show ?thesis by blast
qed

text \<open>
  Claim C6 as stated fails for a delivery earlier than its purchase: one hour early gives
  \<open>delivery_days = -1\<close>, while the difference truncated to days is 0.
\<close>

theorem delivery_days_truncated_counterexample:
  "\<not> (\<forall>r \<in> set (process_tables early_delivery_tables). \<forall>p d.
        order_purchase_timestamp r = Some p \<longrightarrow> order_delivered_customer_date r = Some d \<longrightarrow>
        delivery_days r = Some (truncated_days (d - p)))"
proof -
  have e: "process_tables early_delivery_tables =
     [\<lparr>order_id = Some ''o1'', order_item_id = Some 1, product_id = Some ''p1'',
       price = Some 10, freight_value = Some 1, customer_id = Some ''c1'',
       order_status = Some ''delivered'',
       order_purchase_timestamp = Some 1678874400000000000,
       order_delivered_customer_date = Some 1678870800000000000,
       product_category_name = None, customer_state = None, customer_city = None,
       review_score = None, purchase_year = Some 2023, purchase_month = Some 3,
       delivery_days = Some (- 1)\<rparr>]"
    by code_simp
  have t: "truncated_days (1678870800000000000 - 1678874400000000000) = 0"
    by (simp add: truncated_days_def ns_per_day_def)
  show ?thesis unfolding e using t by simp
qed

text \<open>
  Claim C7. The review merge keeps the table being built as it is, row for row and in the
  same order, and only adds \<open>review_score\<close>: the score of the first review of the row's
  order in the reviews table, or missing when there is none. So all rows of one order carry
  the same single score.
\<close>

theorem review_merge_keeps_rows:
  "length (process_tables t) = length (merge_customers t) \<and>
   map with_customer.truncate (merge_reviews t) = merge_customers t \<and>
   (\<forall>r \<in> set (process_tables t).
      review_score r =
        Option.bind (find (\<lambda>v. rv_order_id v = order_id r) (reviews t)) rv_review_score) \<and>
   (\<forall>r1 \<in> set (process_tables t). \<forall>r2 \<in> set (process_tables t).
      order_id r1 = order_id r2 \<longrightarrow> review_score r1 = review_score r2)"
proof -
  have len: "length (process_tables t) = length (merge_customers t)"
    by (simp add: process_tables_def merge_reviews_eq)
  have "with_customer.truncate (attach_review l m) = l" for l m
    by (simp add: attach_review_def with_customer.truncate_def)
  then have tr: "map with_customer.truncate (merge_reviews t) = merge_customers t"
    by (simp add: merge_reviews_eq o_def)
  have sc: "review_score r =
        Option.bind (find (\<lambda>v. rv_order_id v = order_id r) (reviews t)) rv_review_score"
    if "r \<in> set (process_tables t)" for r
  proof -
    from that obtain l where "r = add_derived (attach_review l (find (\<lambda>v. rv_order_id v = order_id l) (reviews t)))"
      by (auto simp: process_tables_def merge_reviews_eq)
    then show ?thesis by (simp add: add_derived_def attach_review_def)
  qed
  have "review_score r1 = review_score r2"
    if "r1 \<in> set (process_tables t)" "r2 \<in> set (process_tables t)" "order_id r1 = order_id r2"
    for r1 r2
    using that by (simp add: sc)
  with len tr sc show ?thesis by blast
qed

theorem review_merge_keeps_rows_witness:
  "length (process_tables example_tables) = 4 \<and> length (merge_customers example_tables) = 4 \<and>
   map review_score (process_tables example_tables) = [Some 5, Some 5, None, None]"
proof -
  have 1: "length (merge_customers example_tables) = 4" by code_simp
  have 2: "map review_score (process_tables example_tables) = [Some 5, Some 5, None, None]"
    by code_simp
  from review_merge_keeps_rows [of example_tables]
  have "length (process_tables example_tables) = length (merge_customers example_tables)"
    by (rule conjunct1)
  with 1 2 show ?thesis by simp
qed

section \<open>The filtered data set\<close>

lemma matches_filters_fun:
  "matches_filters yf mf sf =
     (\<lambda>r. (case sf of None \<Rightarrow> True | Some s \<Rightarrow> order_status r = Some s) \<and>
          (case yf of None \<Rightarrow> True | Some y \<Rightarrow> purchase_year r = Some y) \<and>
          (case mf of None \<Rightarrow> True | Some m \<Rightarrow> purchase_month r = Some m))"
  by (rule ext) (simp add: matches_filters_def)

lemma create_sales_dataset_built:
  "processed l = Some p \<Longrightarrow>
   create_sales_dataset env l yf mf sf = Inr (l, filter (matches_filters yf mf sf) p)"
  by (cases sf; cases yf; cases mf)
     (auto simp: create_sales_dataset_def matches_filters_def Let_def intro: filter_cong)

lemma create_sales_dataset_result:
  assumes "create_sales_dataset env l yf mf sf = Inr (l', out)"
  shows "\<exists>p. processed l' = Some p \<and> out = filter (matches_filters yf mf sf) p"
proof (cases "processed l")
  case (Some p)
  with assms show ?thesis by (simp add: create_sales_dataset_built)
next
  case None
  from assms None obtain l1 p where pd: "process_data env l = Inr (l1, p)"
    by (auto simp: create_sales_dataset_def split: sum.splits)
  then have p1: "processed l1 = Some p"
    by (auto simp: process_data_def split: sum.splits option.splits)
  have "create_sales_dataset env l yf mf sf = create_sales_dataset env l1 yf mf sf"
    using None pd p1 by (simp add: create_sales_dataset_def)
  with assms p1 show ?thesis by (simp add: create_sales_dataset_built)
qed

text \<open>
  Claim C2. With a processed table built, \<open>create_sales_dataset\<close> returns exactly the rows
  of it that satisfy every filter that is not \<open>None\<close>, in their order; and whatever it
  returns is that selection of the loader's processed table.
\<close>

theorem create_sales_dataset_filters:
  "(\<forall>p. processed l = Some p \<longrightarrow>
      (\<exists>l'. create_sales_dataset env l year_filter month_filter status_filter =
             Inr (l', filter (matches_filters year_filter month_filter status_filter) p))) \<and>
   (\<forall>l' out. create_sales_dataset env l year_filter month_filter status_filter = Inr (l', out) \<longrightarrow>
      (\<exists>p. processed l' = Some p \<and>
           out = filter (matches_filters year_filter month_filter status_filter) p))"
  using create_sales_dataset_built create_sales_dataset_result by blast

theorem create_sales_dataset_filters_witness:
  "\<exists>l'. create_sales_dataset no_files example_built (Some 2023) (Some 3) (Some ''delivered'') =
           Inr (l', take 2 (process_tables example_tables))"
proof -
  have p: "processed example_built = Some (process_tables example_tables)"
    by (simp add: example_built_def)
  have "filter (matches_filters (Some 2023) (Some 3) (Some ''delivered'')) (process_tables example_tables)
          = take 2 (process_tables example_tables)"
    by code_simp
  with p create_sales_dataset_filters [of example_built no_files "Some 2023" "Some 3" "Some ''delivered''"]
  show ?thesis by auto
qed

text \<open>
  Claim C8. For a loader whose processed table is built, \<open>create_sales_dataset\<close> returns
  with the loader unchanged, its processed table included, whatever the filters are.
\<close>

theorem create_sales_dataset_keeps_processed:
  "processed l = Some p \<Longrightarrow>
   \<exists>out. create_sales_dataset env l year_filter month_filter status_filter = Inr (l, out)"
  by (simp add: create_sales_dataset_built)

theorem create_sales_dataset_keeps_processed_witness:
  "\<exists>out. create_sales_dataset no_files example_built None None None = Inr (example_built, out)"
proof -
  have "processed example_built = Some (process_tables example_tables)"
    by (simp add: example_built_def)
  then show ?thesis by (rule create_sales_dataset_keeps_processed)
qed

text \<open>
  Claim C10. A call that leaves out \<open>status_filter\<close> selects the rows whose status is
  \<open>delivered\<close>, as a call passing \<open>'delivered'\<close> does, while the left-out year and
  month filters ask nothing. Passing \<open>None\<close> keeps every row; any other status argument
  returns rows of one status only.
\<close>

theorem status_filter_default:
  assumes "processed l = Some p"
  shows "call_create_sales_dataset env l Omitted Omitted Omitted =
           Inr (l, filter (\<lambda>r. order_status r = Some ''delivered'') p) \<and>
         call_create_sales_dataset env l Omitted Omitted (Passed None) = Inr (l, p) \<and>
         (\<forall>year_arg month_arg.
            call_create_sales_dataset env l year_arg month_arg Omitted =
            call_create_sales_dataset env l year_arg month_arg (Passed (Some ''delivered''))) \<and>
         (\<forall>status_arg l' out.
            status_arg \<noteq> Passed None \<longrightarrow>
            call_create_sales_dataset env l Omitted Omitted status_arg = Inr (l', out) \<longrightarrow>
            (\<exists>s. \<forall>r \<in> set out. order_status r = Some s))"
proof -
  have 1: "call_create_sales_dataset env l Omitted Omitted Omitted =
           Inr (l, filter (\<lambda>r. order_status r = Some ''delivered'') p)"
    using assms
    by (simp add: call_create_sales_dataset_def bind_arg_def create_sales_dataset_built
        matches_filters_fun)
  have 2: "call_create_sales_dataset env l Omitted Omitted (Passed None) = Inr (l, p)"
    using assms
    by (simp add: call_create_sales_dataset_def bind_arg_def create_sales_dataset_built
        matches_filters_fun)
  have 3: "call_create_sales_dataset env l year_arg month_arg Omitted =
            call_create_sales_dataset env l year_arg month_arg (Passed (Some ''delivered''))"
    for year_arg month_arg
    by (simp add: call_create_sales_dataset_def bind_arg_def)
  have 4: "\<exists>s. \<forall>r \<in> set out. order_status r = Some s"
    if "status_arg \<noteq> Passed None"
      and "call_create_sales_dataset env l Omitted Omitted status_arg = Inr (l', out)"
    for status_arg l' out
  proof -
    from that(1) obtain s where s: "bind_arg (Some ''delivered'') status_arg = Some s"
      by (cases status_arg) (auto simp: bind_arg_def)
    with that(2) assms have "out = filter (\<lambda>r. order_status r = Some s) p"
      by (simp add: call_create_sales_dataset_def bind_arg_def create_sales_dataset_built
          matches_filters_fun)
    then show ?thesis by auto
  qed
  from 1 2 3 4 show ?thesis by blast
qed

theorem status_filter_default_witness:
  "call_create_sales_dataset no_files example_built Omitted Omitted Omitted =
     Inr (example_built, take 2 (process_tables example_tables)) \<and>
   call_create_sales_dataset no_files example_built Omitted Omitted (Passed None) =
     Inr (example_built, process_tables example_tables)"
proof -
  have p: "processed example_built = Some (process_tables example_tables)"
    by (simp add: example_built_def)
  have f: "filter (\<lambda>r. order_status r = Some ''delivered'') (process_tables example_tables)
          = take 2 (process_tables example_tables)"
    by code_simp
  note t = status_filter_default [OF p, of no_files]
  from t have a: "call_create_sales_dataset no_files example_built Omitted Omitted Omitted =
      Inr (example_built, filter (\<lambda>r. order_status r = Some ''delivered'') (process_tables example_tables))"
    by (rule conjunct1)
  from t have b: "call_create_sales_dataset no_files example_built Omitted Omitted (Passed None) =
      Inr (example_built, process_tables example_tables)"
    by (rule conjunct1 [OF conjunct2])
  from a b f show ?thesis by simp
qed

section \<open>Revenue metrics\<close>

lemma pct_change_zero: "pct_change new (Val 0) = None"
  by (simp add: pct_change_def)

text \<open>
  Claim C9. When the prices of the comparison data set sum to zero, as for an empty one,
  \<open>calculate_revenue_metrics\<close> raises TypeError for every current data set:
  \<open>pct_change\<close> gives \<open>None\<close> for the zero denominator and \<open>round\<close> rejects it.
\<close>

theorem zero_comparison_revenue_raises:
  assumes "sum_skipna (map price comparison_sales) = 0"
  shows "calculate_revenue_metrics current_sales comparison_sales current_year comparison_year
           = Inl TypeError"
  using assms
  by (simp add: calculate_revenue_metrics_def Let_def pct_change_zero py_round_def)

theorem zero_comparison_revenue_raises_witness:
  "sum_skipna (map price ([] :: sales_row list)) = 0 \<and>
   calculate_revenue_metrics (process_tables example_tables) [] 2023 2022 = Inl TypeError"
proof -
  have h: "sum_skipna (map price ([] :: sales_row list)) = 0" by (simp add: sum_skipna_def)
  from zero_comparison_revenue_raises [OF h] h show ?thesis by simp
qed

lemma sum_list_if_distinct:
  "distinct ks \<Longrightarrow>
   sum_list (map (\<lambda>k. if a = Some k then c else 0) ks) = (if a \<in> Some ` set ks then c else (0::rat))"
  by (induction ks) auto

lemma group_sums_total:
  assumes "distinct ks"
  shows "sum_list (map (\<lambda>k. sum_skipna (map price (group_rows key rows k))) ks) =
         sum_skipna (map price (filter (\<lambda>r. key r \<in> Some ` set ks) rows))"
proof (induction rows)
  case Nil
  show ?case by (simp add: sum_skipna_def group_rows_def)
next
  case (Cons a rows)
  let ?v = "case price a of None \<Rightarrow> 0 | Some p \<Rightarrow> p"
  have step: "sum_skipna (map price (group_rows key (a # rows) k)) =
              (if key a = Some k then ?v else 0) + sum_skipna (map price (group_rows key rows k))"
    for k
    by (simp add: sum_skipna_def group_rows_def)
  have "sum_list (map (\<lambda>k. sum_skipna (map price (group_rows key (a # rows) k))) ks) =
        sum_list (map (\<lambda>k. if key a = Some k then ?v else 0) ks) +
        sum_list (map (\<lambda>k. sum_skipna (map price (group_rows key rows k))) ks)"
    by (simp only: step sum_list_addf)
  also have "\<dots> = (if key a \<in> Some ` set ks then ?v else 0) +
        sum_skipna (map price (filter (\<lambda>r. key r \<in> Some ` set ks) rows))"
    by (simp only: sum_list_if_distinct [OF assms] Cons.IH)
  also have "\<dots> = sum_skipna (map price (filter (\<lambda>r. key r \<in> Some ` set ks) (a # rows)))"
    by (simp add: sum_skipna_def)
  finally show ?case .
qed

lemma set_map_filter_keys: "set (List.map_filter key rows) = {k. Some k \<in> key ` set rows}"
  by (induction rows) (auto split: option.splits)

lemma set_groupby_keys: "set (groupby_keys key rows) = {k. Some k \<in> key ` set rows}"
  by (simp add: groupby_keys_def set_map_filter_keys)

lemma distinct_groupby_keys: "distinct (groupby_keys key rows)"
  by (simp add: groupby_keys_def)

lemma sorted_groupby_keys: "sorted (groupby_keys key rows)"
  by (simp add: groupby_keys_def)

lemma map_filter_id_map: "List.map_filter id (map f xs) = List.map_filter f xs"
  by (induction xs) (simp_all split: option.splits)

lemma length_groupby_keys: "length (groupby_keys key rows) = nunique (map key rows)"
  by (simp add: groupby_keys_def nunique_def map_filter_id_map)

lemma filter_present_keys:
  "filter (\<lambda>r. key r \<in> Some ` set (groupby_keys key rows)) rows = filter (\<lambda>r. key r \<noteq> None) rows"
proof (rule filter_cong)
  fix r
  assume "r \<in> set rows"
  then show "(key r \<in> Some ` set (groupby_keys key rows)) = (key r \<noteq> None)"
    by (cases "key r") (auto simp: set_groupby_keys image_iff intro!: bexI [of _ r])
qed simp

lemma sum_order_sums:
  "sum_list (order_sums sales) = sum_skipna (map price (with_order_id sales))"
  unfolding order_sums_def with_order_id_def
  by (simp only: group_sums_total [OF distinct_groupby_keys] filter_present_keys)

lemma nunique_with_order_id: "nunique (map order_id (with_order_id sales)) = nunique (map order_id sales)"
proof -
  have "List.map_filter order_id (filter (\<lambda>r. order_id r \<noteq> None) sales) = List.map_filter order_id sales"
    by (induction sales) (auto split: option.splits)
  then show ?thesis by (simp add: nunique_def with_order_id_def map_filter_id_map)
qed

lemma mean_order_sums: "mean (order_sums sales) = revenue_per_order (with_order_id sales)"
proof (cases "groupby_keys order_id sales = []")
  case True
  then have n: "nunique (map order_id sales) = 0"
    using length_groupby_keys [of order_id sales] by simp
  from True have "order_sums sales = []" by (simp add: order_sums_def)
  then have "sum_skipna (map price (with_order_id sales)) = 0" "mean (order_sums sales) = NaN"
    using sum_order_sums [of sales] by (simp_all add: mean_def)
  with n show ?thesis by (simp add: revenue_per_order_def nunique_with_order_id)
next
  case False
  then have n: "nunique (map order_id sales) \<noteq> 0"
    by (simp add: length_groupby_keys [symmetric])
  have l: "length (order_sums sales) = nunique (map order_id sales)"
    by (simp add: order_sums_def length_groupby_keys)
  from False have "order_sums sales \<noteq> []" by (simp add: order_sums_def)
  then have "mean (order_sums sales) =
      Val (sum_skipna (map price (with_order_id sales)) / of_nat (nunique (map order_id sales)))"
    by (simp add: mean_def sum_order_sums l)
  with n show ?thesis by (simp add: revenue_per_order_def nunique_with_order_id)
qed

lemma with_order_id_all: "\<forall>r \<in> set rows. order_id r \<noteq> None \<Longrightarrow> with_order_id rows = rows"
  by (simp add: with_order_id_def)

lemma calculate_revenue_metrics_aov:
  assumes "calculate_revenue_metrics cs ps cy py = Inr d"
  shows "d (K_aov py) = Some (FloatValue (fround 2 (mean (order_sums ps))))"
    and "cy \<noteq> py \<Longrightarrow> d (K_aov cy) = Some (FloatValue (fround 2 (mean (order_sums cs))))"
  using assms
  by (auto simp: calculate_revenue_metrics_def Let_def split: sum.splits)

lemma calculate_geographic_metrics_row:
  assumes "g \<in> set (calculate_geographic_metrics sales)"
  shows "g_customer_state g \<in> set (groupby_keys customer_state sales) \<and>
         g_revenue g = sum_skipna (map price (group_rows customer_state sales (g_customer_state g))) \<and>
         g_order_count g = nunique (map order_id (group_rows customer_state sales (g_customer_state g))) \<and>
         g_aov g = fround 2 (fdiv (Val (g_revenue g)) (Val (of_nat (g_order_count g))))"
  using assms by (auto simp: calculate_geographic_metrics_def Let_def)

text \<open>
  Claim C3, amended. Whenever \<open>calculate_revenue_metrics\<close> returns, the comparison year's
  \<open>aov\<close> entry is, rounded to 2 decimals, the sum of price over the comparison rows that
  have an order id divided by the number of distinct order ids, and so is the current year's
  entry for the current rows when the two years differ (with equal years the one key holds
  the comparison value). Every row of \<open>calculate_geographic_metrics\<close> has as \<open>aov\<close>,
  rounded to 2 decimals, the sum of price over the rows of its state divided by the number
  of distinct order ids among them.
\<close>

theorem aov_is_revenue_per_order:
  "(\<forall>d. calculate_revenue_metrics current_sales comparison_sales current_year comparison_year = Inr d \<longrightarrow>
      d (K_aov comparison_year) =
        Some (FloatValue (fround 2 (revenue_per_order (with_order_id comparison_sales)))) \<and>
      (current_year \<noteq> comparison_year \<longrightarrow>
         d (K_aov current_year) =
           Some (FloatValue (fround 2 (revenue_per_order (with_order_id current_sales)))))) \<and>
   (\<forall>g \<in> set (calculate_geographic_metrics sales).
      g_aov g = fround 2 (revenue_per_order (group_rows customer_state sales (g_customer_state g))))"
proof -
  have "g_aov g = fround 2 (revenue_per_order (group_rows customer_state sales (g_customer_state g)))"
    if "g \<in> set (calculate_geographic_metrics sales)" for g
    using calculate_geographic_metrics_row [OF that] by (simp add: revenue_per_order_def)
  then show ?thesis
    using calculate_revenue_metrics_aov [of current_sales comparison_sales current_year comparison_year]
    by (simp add: mean_order_sums)
qed

lemma returns_cases:
  assumes "map_sum id f r = Inr v"
  obtains d where "r = Inr d" "f d = v"
  using assms by (cases r) auto

theorem aov_is_revenue_per_order_witness:
  "(\<exists>d. calculate_revenue_metrics (process_tables example_tables) (process_tables missing_id_tables)
           2023 2022 = Inr d \<and>
        d (K_aov 2022) = Some (FloatValue (Val 20)) \<and>
        d (K_aov 2023) = Some (FloatValue (Val 14))) \<and>
   map g_aov (calculate_geographic_metrics (process_tables example_tables)) = [Val 15]"
proof -
  let ?E = "process_tables example_tables" and ?M = "process_tables missing_id_tables"
  have "map_sum id (\<lambda>d. ()) (calculate_revenue_metrics ?E ?M 2023 2022) = Inr ()"
    by code_simp
  then obtain d where d: "calculate_revenue_metrics ?E ?M 2023 2022 = Inr d"
    by (rule returns_cases)
  have a: "fround 2 (revenue_per_order (with_order_id ?M)) = Val 20" by code_simp
  have b: "fround 2 (revenue_per_order (with_order_id ?E)) = Val 14" by code_simp
  have c: "map g_aov (calculate_geographic_metrics ?E) = [Val 15]" by code_simp
  from aov_is_revenue_per_order [of ?E ?M 2023 2022 ?E] d
  have "d (K_aov 2022) = Some (FloatValue (fround 2 (revenue_per_order (with_order_id ?M))))"
    and "d (K_aov 2023) = Some (FloatValue (fround 2 (revenue_per_order (with_order_id ?E))))"
    by simp_all
  with a b c d show ?thesis by simp
qed

text \<open>
  Claim C3 as stated fails for a data set with a row that has no order id: the per-order
  grouping leaves that row's price out, so the returned value is 20, while the sum of
  price over the distinct order count is 30.
\<close>

theorem aov_missing_order_id_counterexample:
  "\<exists>d. calculate_revenue_metrics (process_tables missing_id_tables) (process_tables missing_id_tables)
          2023 2022 = Inr d \<and>
       d (K_aov 2023) = Some (FloatValue (Val 20)) \<and>
       fround 2 (revenue_per_order (process_tables missing_id_tables)) = Val 30 \<and>
       d (K_aov 2023) \<noteq> Some (FloatValue (fround 2 (revenue_per_order (process_tables missing_id_tables))))"
proof -
  let ?M = "process_tables missing_id_tables"
  have "map_sum id (\<lambda>d. d (K_aov 2023)) (calculate_revenue_metrics ?M ?M 2023 2022)
          = Inr (Some (FloatValue (Val 20)))"
    by code_simp
  then obtain d where d: "calculate_revenue_metrics ?M ?M 2023 2022 = Inr d"
    "d (K_aov 2023) = Some (FloatValue (Val 20))"
    by (rule returns_cases)
  have a: "fround 2 (revenue_per_order ?M) = Val 30" by code_simp
  from d a show ?thesis by simp
qed

section \<open>Monthly revenue and delivery buckets\<close>

lemma length_pct_change_series: "length (pct_change_series xs) = length xs"
  by (cases xs) (simp_all add: pct_change_series_def)

lemma nth_pct_change_series:
  assumes "i < length xs"
  shows "pct_change_series xs ! i =
           (if i = 0 then NaN else fsub (fdiv (Val (xs ! i)) (Val (xs ! (i - 1)))) (Val 1))"
proof (cases xs)
  case Nil
  with assms show ?thesis by simp
next
  case (Cons x ys)
  show ?thesis
  proof (cases i)
    case 0
    with Cons show ?thesis by (simp add: pct_change_series_def)
  next
    case (Suc j)
    with assms Cons have "j < length ys" by simp
    with Cons Suc show ?thesis by (simp add: pct_change_series_def)
  qed
qed

lemma pct_change_formula:
  "fmul (fsub (fdiv (Val r) (Val p)) (Val 1)) (Val 100) =
   fmul (fdiv (fsub (Val r) (Val p)) (Val p)) (Val 100)"
proof (cases "p = 0")
  case True
  then show ?thesis by (simp add: scale_inf_def)
next
  case False
  then have "r / p - 1 = (r - p) / p" by (simp add: diff_divide_distrib)
  with False show ?thesis by simp
qed

lemma monthly_sorted:
  "sort_key fst (map (\<lambda>m. (m, f m)) (groupby_keys key rows)) = map (\<lambda>m. (m, f m)) (groupby_keys key rows)"
  by (rule sort_key_id_if_sorted) (simp add: o_def sorted_groupby_keys)

lemma calculate_monthly_revenue_nth:
  assumes "i < length (groupby_keys purchase_month sales)"
  shows "calculate_monthly_revenue sales ! i =
           \<lparr>m_purchase_month = groupby_keys purchase_month sales ! i,
            m_revenue = month_revenue sales (groupby_keys purchase_month sales ! i),
            m_mom_growth_pct =
              (if i = 0 then NaN
               else fmul (fsub (fdiv (Val (month_revenue sales (groupby_keys purchase_month sales ! i)))
                                     (Val (month_revenue sales (groupby_keys purchase_month sales ! (i - 1)))))
                               (Val 1)) (Val 100))\<rparr>"
  using assms
  by (simp add: calculate_monthly_revenue_def Let_def monthly_sorted o_def
      length_pct_change_series nth_pct_change_series month_revenue_def group_rows_def)

lemma length_calculate_monthly_revenue:
  "length (calculate_monthly_revenue sales) = length (groupby_keys purchase_month sales)"
  by (simp add: calculate_monthly_revenue_def Let_def length_pct_change_series)

lemma months_calculate_monthly_revenue:
  "map m_purchase_month (calculate_monthly_revenue sales) = groupby_keys purchase_month sales"
  by (rule nth_equalityI)
     (simp_all add: length_calculate_monthly_revenue calculate_monthly_revenue_nth)

text \<open>
  Claim C4. \<open>calculate_monthly_revenue\<close> has one row per purchase month present in the
  input, ascending by month. The revenue of a row is the sum of price over the rows of its
  month; the growth of the first row is NaN and that of every later row is (revenue minus
  the previous row's revenue) over the previous row's revenue, times 100.
\<close>

theorem monthly_revenue_rows:
  "sorted (map m_purchase_month (calculate_monthly_revenue sales)) \<and>
   distinct (map m_purchase_month (calculate_monthly_revenue sales)) \<and>
   set (map m_purchase_month (calculate_monthly_revenue sales)) = {m. Some m \<in> purchase_month ` set sales} \<and>
   (\<forall>i < length (calculate_monthly_revenue sales).
      m_revenue (calculate_monthly_revenue sales ! i) =
        sum_skipna (map price
          (filter (\<lambda>r. purchase_month r = Some (m_purchase_month (calculate_monthly_revenue sales ! i))) sales)) \<and>
      m_mom_growth_pct (calculate_monthly_revenue sales ! i) =
        (if i = 0 then NaN
         else fmul (fdiv (fsub (Val (m_revenue (calculate_monthly_revenue sales ! i)))
                               (Val (m_revenue (calculate_monthly_revenue sales ! (i - 1)))))
                         (Val (m_revenue (calculate_monthly_revenue sales ! (i - 1)))))
                   (Val 100)))"
proof -
  have "m_revenue (calculate_monthly_revenue sales ! i) =
        sum_skipna (map price
          (filter (\<lambda>r. purchase_month r = Some (m_purchase_month (calculate_monthly_revenue sales ! i))) sales)) \<and>
      m_mom_growth_pct (calculate_monthly_revenue sales ! i) =
        (if i = 0 then NaN
         else fmul (fdiv (fsub (Val (m_revenue (calculate_monthly_revenue sales ! i)))
                               (Val (m_revenue (calculate_monthly_revenue sales ! (i - 1)))))
                         (Val (m_revenue (calculate_monthly_revenue sales ! (i - 1)))))
                   (Val 100))"
    if "i < length (calculate_monthly_revenue sales)" for i
  proof -
    from that have i: "i < length (groupby_keys purchase_month sales)"
      by (simp add: length_calculate_monthly_revenue)
    then have j: "i - 1 < length (groupby_keys purchase_month sales)" by simp
    let ?keys = "groupby_keys purchase_month sales"
    let ?out = "calculate_monthly_revenue sales"
    from calculate_monthly_revenue_nth [OF i]
    have ri: "m_purchase_month (?out ! i) = ?keys ! i"
      "m_revenue (?out ! i) = month_revenue sales (?keys ! i)"
      "m_mom_growth_pct (?out ! i) =
         (if i = 0 then NaN
          else fmul (fsub (fdiv (Val (month_revenue sales (?keys ! i)))
                                (Val (month_revenue sales (?keys ! (i - 1))))) (Val 1)) (Val 100))"
      by simp_all
    from calculate_monthly_revenue_nth [OF j]
    have rj: "m_revenue (?out ! (i - 1)) = month_revenue sales (?keys ! (i - 1))"
      by simp
    have 1: "m_revenue (?out ! i) =
        sum_skipna (map price (filter (\<lambda>r. purchase_month r = Some (m_purchase_month (?out ! i))) sales))"
      unfolding ri by (simp add: month_revenue_def)
    have 2: "m_mom_growth_pct (?out ! i) =
        (if i = 0 then NaN
         else fmul (fdiv (fsub (Val (m_revenue (?out ! i))) (Val (m_revenue (?out ! (i - 1)))))
                         (Val (m_revenue (?out ! (i - 1))))) (Val 100))"
      unfolding ri rj pct_change_formula by (rule refl)
    from 1 2 show ?thesis by (rule conjI)
  qed
  then show ?thesis
    by (simp add: months_calculate_monthly_revenue sorted_groupby_keys distinct_groupby_keys
        set_groupby_keys)
qed

theorem monthly_revenue_rows_witness:
  "calculate_monthly_revenue (process_tables example_tables) =
     [\<lparr>m_purchase_month = 3, m_revenue = 15, m_mom_growth_pct = NaN\<rparr>,
      \<lparr>m_purchase_month = 4, m_revenue = 7, m_mom_growth_pct = Val (- 160 / 3)\<rparr>] \<and>
   m_mom_growth_pct (calculate_monthly_revenue (process_tables example_tables) ! 1) =
     fmul (fdiv (fsub (Val 7) (Val 15)) (Val 15)) (Val 100)"
proof -
  let ?out = "calculate_monthly_revenue (process_tables example_tables)"
  have e: "?out =
     [\<lparr>m_purchase_month = 3, m_revenue = 15, m_mom_growth_pct = NaN\<rparr>,
      \<lparr>m_purchase_month = 4, m_revenue = 7, m_mom_growth_pct = Val (- 160 / 3)\<rparr>]"
    by code_simp
  then have l: "1 < length ?out" by simp
  from monthly_revenue_rows [of "process_tables example_tables"] l
  have "m_mom_growth_pct (?out ! 1) =
          fmul (fdiv (fsub (Val (m_revenue (?out ! 1))) (Val (m_revenue (?out ! (1 - 1)))))
                     (Val (m_revenue (?out ! (1 - 1))))) (Val 100)"
    by auto
  moreover have "m_revenue (?out ! 1) = 7" "m_revenue (?out ! (1 - 1)) = 15"
    by (simp_all add: e)
  ultimately have "m_mom_growth_pct (?out ! 1) = fmul (fdiv (fsub (Val 7) (Val 15)) (Val 15)) (Val 100)"
    by simp
  with e show ?thesis by simp
qed

text \<open>
  The buckets of \<open>_bucket_delivery\<close>, and the rows of the summary: every bucket that occurs
  among the orders has a row, labelled by the bucket's category.
\<close>

lemma bucket_delivery_cases:
  "bucket_delivery None = ''unknown'' \<and>
   (\<forall>d. 1 \<le> d \<and> d \<le> 3 \<longrightarrow> bucket_delivery (Some d) = ''1-3 days'') \<and>
   (\<forall>d. 4 \<le> d \<and> d \<le> 7 \<longrightarrow> bucket_delivery (Some d) = ''4-7 days'') \<and>
   (\<forall>d. 8 \<le> d \<longrightarrow> bucket_delivery (Some d) = ''8+ days'') \<and>
   (\<forall>days. bucket_delivery days \<in> {''unknown'', ''1-3 days'', ''4-7 days'', ''8+ days''})"
  by (auto simp: bucket_delivery_def split: option.splits)

lemma delivery_bucket_summary_rows:
  assumes "r \<in> set (drop_duplicates order_id sales)"
  shows "\<exists>row \<in> set (delivery_bucket_summary (calculate_delivery_metrics sales)).
           b_delivery_time row = categorical bucket_order (bucket_delivery (delivery_days r))"
proof -
  let ?dt = "\<lambda>r. Some (bucket_delivery (delivery_days r))"
  from assms have "bucket_delivery (delivery_days r) \<in> set (groupby_keys ?dt (drop_duplicates order_id sales))"
    by (auto simp: set_groupby_keys)
  then show ?thesis
    by (force simp: calculate_delivery_metrics_def Let_def)
qed

text \<open>
  Claim C5, at the example tables: orders \<open>o2\<close> and \<open>o3\<close> have no delivery duration and
  fall in the bucket \<open>unknown\<close>, but the row of that bucket in the summary has lost its
  label: \<open>delivery_time\<close> is missing, since \<open>bucket_order\<close> has no category for it.
\<close>

theorem unknown_bucket_label_lost:
  "map (\<lambda>r. bucket_delivery (delivery_days r)) (drop_duplicates order_id (process_tables example_tables))
     = [''1-3 days'', ''unknown'', ''unknown''] \<and>
   delivery_bucket_summary (calculate_delivery_metrics (process_tables example_tables)) =
     [\<lparr>b_delivery_time = Some ''1-3 days'', b_avg_review_score = Val 5, b_order_count = 1\<rparr>,
      \<lparr>b_delivery_time = None, b_avg_review_score = NaN, b_order_count = 2\<rparr>]"
proof -
  have "map (\<lambda>r. bucket_delivery (delivery_days r)) (drop_duplicates order_id (process_tables example_tables))
     = [''1-3 days'', ''unknown'', ''unknown'']"
    by code_simp
  moreover have "delivery_bucket_summary (calculate_delivery_metrics (process_tables example_tables)) =
     [\<lparr>b_delivery_time = Some ''1-3 days'', b_avg_review_score = Val 5, b_order_count = 1\<rparr>,
      \<lparr>b_delivery_time = None, b_avg_review_score = NaN, b_order_count = 2\<rparr>]"
    by code_simp
  ultimately show ?thesis by simp
qed

end
